theory Spec2Isabelle
  imports Main "HOL-Library.Sublist"
begin

section \<open>Python values built by \<open>util/make_json.py\<close>\<close>

text \<open>
  The script builds two lists of consecutive integers, stores each under the key
  \<open>numbers\<close> of a fresh dictionary and hands each dictionary to \<open>json.dump\<close>.
  The values it handles are Python integers (unbounded), lists and dictionaries
  with string keys. A dictionary keeps its keys in insertion order, so it is an
  association list without repeated keys.
\<close>

datatype pyval =
    PInt int
  | PList "pyval list"
  | PDict "(string \<times> pyval) list"

type_synonym pydict = "(string \<times> pyval) list"

text \<open>\<open>d[k] = v\<close>: an existing key keeps its position, a new key goes last.\<close>

fun dict_setitem :: "pydict \<Rightarrow> string \<Rightarrow> pyval \<Rightarrow> pydict" where
  "dict_setitem [] k v = [(k, v)]"
| "dict_setitem ((k', v') # d) k v =
     (if k' = k then (k, v) # d else (k', v') # dict_setitem d k v)"

text \<open>\<open>d.get(k)\<close> and \<open>list(d.keys())\<close>, used to state what a document holds.\<close>

fun dict_get :: "pydict \<Rightarrow> string \<Rightarrow> pyval option" where
  "dict_get [] k = None"
| "dict_get ((k', v') # d) k = (if k' = k then Some v' else dict_get d k)"

definition dict_keys :: "pydict \<Rightarrow> string list" where
  "dict_keys d = map fst d"

text \<open>\<open>range(n)\<close> yields \<open>0, 1, ..., n - 1\<close>.\<close>

definition py_range :: "nat \<Rightarrow> int list" where
  "py_range n = map int [0..<n]"

text \<open>
  Lines 20-22 and 28-30 are the same loop with a different bound:
  \<^verbatim>\<open>
  numbers = []
  for i in range(n):
    numbers.append(i)
  \<close>
  The loop is a left fold over the range; the accumulator is the list being mutated.
\<close>

definition list_append :: "pyval list \<Rightarrow> pyval \<Rightarrow> pyval list" where
  "list_append xs x = xs @ [x]"

definition build_numbers :: "nat \<Rightarrow> pyval list" where
  "build_numbers n = fold (\<lambda>i numbers. list_append numbers (PInt i)) (py_range n) []"

text \<open>
  Lines 23-24 and 31-32:
  \<^verbatim>\<open>
  data = {}
  data['numbers'] = numbers
  \<close>
\<close>

definition build_data :: "pyval list \<Rightarrow> pydict" where
  "build_data numbers = dict_setitem [] ''numbers'' (PList numbers)"

definition snumbers :: "pyval list" where
  "snumbers = build_numbers 500"

definition sdata :: pydict where
  "sdata = build_data snumbers"

definition lnumbers :: "pyval list" where
  "lnumbers = build_numbers 100000"

definition ldata :: pydict where
  "ldata = build_data lnumbers"

section \<open>The encoder behind \<open>json.dump\<close>\<close>

text \<open>
  \<open>json.dump(obj, fp)\<close> is called with the defaults of Python's standard library:
  no indentation, item separator \<open>", "\<close>, key separator \<open>": "\<close>, ASCII-only
  output. Integers are written in decimal, with a leading minus sign when negative.
\<close>

definition digit_char :: "nat \<Rightarrow> char" where
  "digit_char d = char_of (of_char CHR ''0'' + d)"

fun nat_repr :: "nat \<Rightarrow> string" where
  "nat_repr n = (if n < 10 then [digit_char n] else nat_repr (n div 10) @ [digit_char (n mod 10)])"

declare nat_repr.simps [simp del]

definition int_repr :: "int \<Rightarrow> string" where
  "int_repr i = (if i < 0 then CHR ''-'' # nat_repr (nat (- i)) else nat_repr (nat i))"

text \<open>
  A string is written between double quotes. With ASCII-only output every character
  outside the printable range \<open>' '..'~'\<close>, the double quote and the backslash
  are escaped: the short escapes for backspace, form feed, newline, carriage return
  and tab, and \<open>\uXXXX\<close> with four lower-case hexadecimal digits otherwise.
  Characters of the model are bytes, so the first two hexadecimal digits are zero.
\<close>

definition hex_char :: "nat \<Rightarrow> char" where
  "hex_char d = (if d < 10 then char_of (of_char CHR ''0'' + d)
                 else char_of (of_char CHR ''a'' + (d - 10)))"

definition escape_char :: "char \<Rightarrow> string" where
  "escape_char c =
     (if c = CHR 0x22 then [CHR 0x5C, CHR 0x22]
      else if c = CHR 0x5C then [CHR 0x5C, CHR 0x5C]
      else if c = CHR 0x08 then [CHR 0x5C, CHR ''b'']
      else if c = CHR 0x0C then [CHR 0x5C, CHR ''f'']
      else if c = CHR 0x0A then [CHR 0x5C, CHR ''n'']
      else if c = CHR 0x0D then [CHR 0x5C, CHR ''r'']
      else if c = CHR 0x09 then [CHR 0x5C, CHR ''t'']
      else if (32::nat) \<le> of_char c \<and> (of_char c :: nat) \<le> 126 then [c]
      else [CHR 0x5C, CHR ''u'', CHR ''0'', CHR ''0'',
            hex_char (of_char c div 16), hex_char (of_char c mod 16)])"

definition encode_str :: "string \<Rightarrow> string" where
  "encode_str s = CHR 0x22 # concat (map escape_char s) @ [CHR 0x22]"

text \<open>\<open>sep.join(parts)\<close>.\<close>

fun join :: "string \<Rightarrow> string list \<Rightarrow> string" where
  "join sep [] = []"
| "join sep [p] = p"
| "join sep (p # q # ps) = p @ sep @ join sep (q # ps)"

definition item_separator :: string where
  "item_separator = '', ''"

definition key_separator :: string where
  "key_separator = '': ''"

fun json_dumps :: "pyval \<Rightarrow> string" where
  "json_dumps (PInt i) = int_repr i"
| "json_dumps (PList xs) = ''['' @ join item_separator (map json_dumps xs) @ '']''"
| "json_dumps (PDict d) =
     ''{'' @ join item_separator
              (map (\<lambda>kv. encode_str (fst kv) @ key_separator @ json_dumps (snd kv)) d) @ ''}''"

section \<open>Files and the run of the script\<close>

text \<open>
  The file system maps a path to the content of the file there, if any. The two output
  paths are taken to name two different files. What the operating system does with a
  request is not decided by the script, so it is a parameter of the run: per path, the
  open may be refused (permission denied, invalid path), or the write may break off
  after some characters have reached the file (disk full), or nothing goes wrong.
\<close>

type_synonym filesystem = "string \<rightharpoonup> string"

datatype fault = NoFault | OpenFault | WriteFault nat

datatype py_error = OSError string

datatype event =
    EvOpen string
  | EvWrite string string
  | EvClose string
  | EvRaise py_error

record world =
  files :: filesystem
  trace :: "event list"

datatype outcome = Returned | Raised py_error

fun event_path :: "event \<Rightarrow> string" where
  "event_path (EvOpen p) = p"
| "event_path (EvWrite p s) = p"
| "event_path (EvClose p) = p"
| "event_path (EvRaise (OSError p)) = p"

definition log_event :: "event \<Rightarrow> world \<Rightarrow> world" where
  "log_event e w = w\<lparr>trace := trace w @ [e]\<rparr>"

text \<open>
  \<open>open(path, 'w')\<close> creates the file or truncates it to length zero; a refused open
  raises and leaves the file system as it was.
\<close>

definition py_open :: "(string \<Rightarrow> fault) \<Rightarrow> string \<Rightarrow> world \<Rightarrow> outcome \<times> world" where
  "py_open flt path w =
     (if flt path = OpenFault then (Raised (OSError path), log_event (EvRaise (OSError path)) w)
      else (Returned, log_event (EvOpen path) (w\<lparr>files := (files w)(path \<mapsto> [])\<rparr>)))"

text \<open>Writing appends to what the open file holds so far.\<close>

definition file_append :: "string \<Rightarrow> string \<Rightarrow> world \<Rightarrow> world" where
  "file_append path s w =
     log_event (EvWrite path s)
       (w\<lparr>files := (files w)(path \<mapsto> (case files w path of None \<Rightarrow> s | Some old \<Rightarrow> old @ s))\<rparr>)"

text \<open>
  A write that goes through puts all of \<open>s\<close> into the file. A write that breaks off
  (\<open>WriteFault k\<close>) leaves at most the first \<open>k\<close> characters of \<open>s\<close> there and raises.
\<close>

definition py_write :: "(string \<Rightarrow> fault) \<Rightarrow> string \<Rightarrow> string \<Rightarrow> world \<Rightarrow> outcome \<times> world" where
  "py_write flt path s w =
     (case flt path of
        WriteFault k \<Rightarrow>
          (Raised (OSError path), log_event (EvRaise (OSError path)) (file_append path (take k s) w))
      | _ \<Rightarrow> (Returned, file_append path s w))"

definition py_close :: "string \<Rightarrow> world \<Rightarrow> world" where
  "py_close path w = log_event (EvClose path) w"

text \<open>\<open>json.dump(obj, outfile)\<close> writes the encoding of \<open>obj\<close> to the open file.\<close>

definition json_dump :: "(string \<Rightarrow> fault) \<Rightarrow> pydict \<Rightarrow> string \<Rightarrow> world \<Rightarrow> outcome \<times> world" where
  "json_dump flt obj path w = py_write flt path (json_dumps (PDict obj)) w"

text \<open>
  Lines 25-26 and 33-34:
  \<^verbatim>\<open>
  with open(path, 'w') as outfile:
    json.dump(data, outfile)
  \<close>
  When the open raises, the body does not run. When the body raises, the \<open>with\<close>
  statement still closes the file and the exception goes on.
\<close>

definition with_open_dump :: "(string \<Rightarrow> fault) \<Rightarrow> string \<Rightarrow> pydict \<Rightarrow> world \<Rightarrow> outcome \<times> world" where
  "with_open_dump flt path obj w =
     (case py_open flt path w of
        (Raised e, w1) \<Rightarrow> (Raised e, w1)
      | (Returned, w1) \<Rightarrow>
          (case json_dump flt obj path w1 of (r, w2) \<Rightarrow> (r, py_close path w2)))"

definition small_path :: string where
  "small_path = ''small_file.json''"

definition large_path :: string where
  "large_path = ''large_file.json''"

text \<open>
  The script has no \<open>try\<close>: an exception ends the run there, and the interpreter
  exits with status 1. A run that reaches the end of the script exits with status 0.
\<close>

record run_result =
  exit_status :: nat
  uncaught :: "py_error option"
  final :: world

definition make_json :: "(string \<Rightarrow> fault) \<Rightarrow> filesystem \<Rightarrow> run_result" where
  "make_json flt fs =
     (case with_open_dump flt small_path sdata \<lparr>files = fs, trace = []\<rparr> of
        (Raised e, w1) \<Rightarrow> \<lparr>exit_status = 1, uncaught = Some e, final = w1\<rparr>
      | (Returned, w1) \<Rightarrow>
          (case with_open_dump flt large_path ldata w1 of
             (Raised e, w2) \<Rightarrow> \<lparr>exit_status = 1, uncaught = Some e, final = w2\<rparr>
           | (Returned, w2) \<Rightarrow> \<lparr>exit_status = 0, uncaught = None, final = w2\<rparr>))"

text \<open>The events of a run that concern one path, in order.\<close>

definition events_on :: "string \<Rightarrow> event list \<Rightarrow> event list" where
  "events_on p evs = filter (\<lambda>e. event_path e = p) evs"

text \<open>
  \<open>before p q evs\<close>: every event on \<open>p\<close> comes before every event on \<open>q\<close>.
\<close>

fun before :: "string \<Rightarrow> string \<Rightarrow> event list \<Rightarrow> bool" where
  "before p q [] = True"
| "before p q (e # evs) =
     ((event_path e = q \<longrightarrow> events_on p evs = []) \<and> before p q evs)"

text \<open>
  \<open>spaced s\<close>: every comma and every colon of \<open>s\<close> is followed by a space.
\<close>

fun spaced :: "string \<Rightarrow> bool" where
  "spaced [] = True"
| "spaced [c] = (c \<noteq> CHR '','' \<and> c \<noteq> CHR '':'')"
| "spaced (c # d # cs) = ((c = CHR '','' \<or> c = CHR '':'' \<longrightarrow> d = CHR '' '') \<and> spaced (d # cs))"

text \<open>\<open>is_raise e\<close>: the event is an exception being raised.\<close>

fun is_raise :: "event \<Rightarrow> bool" where
  "is_raise (EvRaise e) = True"
| "is_raise (EvOpen p) = False"
| "is_raise (EvWrite p s) = False"
| "is_raise (EvClose p) = False"

text \<open>
  \<open>aborted evs\<close>: once an exception is raised nothing is opened or written any more;
  the only event that may follow is the \<open>with\<close> statement closing the file.
\<close>

fun is_close :: "event \<Rightarrow> bool" where
  "is_close (EvClose p) = True"
| "is_close (EvOpen p) = False"
| "is_close (EvWrite p s) = False"
| "is_close (EvRaise e) = False"

fun aborted :: "event list \<Rightarrow> bool" where
  "aborted [] = True"
| "aborted (e # evs) = ((is_raise e \<longrightarrow> list_all is_close evs) \<and> aborted evs)"

text \<open>\<open>is_digit c\<close>: the character is one of \<open>0\<close> to \<open>9\<close>.\<close>

definition is_digit :: "char \<Rightarrow> bool" where
  "is_digit c = (48 \<le> (of_char c :: nat) \<and> (of_char c :: nat) \<le> 57)"

section \<open>The two documents\<close>

lemma fold_list_append:
  "fold (\<lambda>i numbers. list_append numbers (PInt i)) is acc = acc @ map PInt is"
  by (induction "is" arbitrary: acc) (simp_all add: list_append_def)

lemma build_numbers_eq: "build_numbers n = map (\<lambda>i. PInt (int i)) [0..<n]"
  by (simp add: build_numbers_def py_range_def fold_list_append comp_def)

lemma length_build_numbers: "length (build_numbers n) = n"
  by (simp add: build_numbers_eq)

lemma nth_build_numbers: "i < n \<Longrightarrow> build_numbers n ! i = PInt (int i)"
  by (simp add: build_numbers_eq)

lemma build_numbers_take: "m \<le> n \<Longrightarrow> take m (build_numbers n) = build_numbers m"
  by (simp add: build_numbers_eq take_map)

lemma build_numbers_prefix: "m \<le> n \<Longrightarrow> prefix (build_numbers m) (build_numbers n)"
  using take_is_prefix [of m "build_numbers n"] by (simp add: build_numbers_take)

lemma build_data_eq: "build_data xs = [(''numbers'', PList xs)]"
  by (simp add: build_data_def)

lemma dict_get_build_data: "dict_get (build_data xs) ''numbers'' = Some (PList xs)"
  by (simp add: build_data_eq)

lemma dict_keys_build_data: "dict_keys (build_data xs) = [''numbers'']"
  by (simp add: build_data_eq dict_keys_def)

lemma length_snumbers: "length snumbers = 500"
  unfolding snumbers_def by (rule length_build_numbers)

lemma length_lnumbers: "length lnumbers = 100000"
  unfolding lnumbers_def by (rule length_build_numbers)

section \<open>What the encoder writes\<close>

lemma digit_char_is_digit: "d < 10 \<Longrightarrow> is_digit (digit_char d)"
  by (simp add: is_digit_def digit_char_def)

lemma nat_repr_digits: "list_all is_digit (nat_repr n)"
proof (induction n rule: nat_repr.induct)
  case (1 n)
  show ?case
  proof (cases "n < 10")
    case True
    then have "nat_repr n = [digit_char n]"
      by (subst nat_repr.simps) simp
    with True show ?thesis
      by (simp add: digit_char_is_digit)
  next
    case False
    then have "nat_repr n = nat_repr (n div 10) @ [digit_char (n mod 10)]"
      by (subst nat_repr.simps) simp
    with False "1.IH" show ?thesis
      by (simp add: digit_char_is_digit)
  qed
qed

lemma is_digit_not_special:
  "is_digit c \<Longrightarrow> c \<noteq> CHR 0x0A \<and> c \<noteq> CHR '','' \<and> c \<noteq> CHR '':'' \<and> c \<noteq> CHR ''-''"
  by (auto simp: is_digit_def)

lemma int_repr_no_newline: "CHR 0x0A \<notin> set (int_repr i)"
proof -
  have "CHR 0x0A \<notin> set (nat_repr n)" for n
    using nat_repr_digits [of n] is_digit_not_special [of "CHR 0x0A"]
    by (auto simp: list_all_iff)
  then show ?thesis
    by (simp add: int_repr_def)
qed

lemma int_repr_nonneg: "0 \<le> i \<Longrightarrow> list_all is_digit (int_repr i)"
  by (simp add: int_repr_def nat_repr_digits)

lemma hex_char_no_newline: "d < 16 \<Longrightarrow> hex_char d \<noteq> CHR 0x0A"
proof -
  assume d: "d < 16"
  have "(of_char (hex_char d) :: nat) \<noteq> of_char (CHR 0x0A)"
    using d by (simp add: hex_char_def)
  then show ?thesis by auto
qed

lemma escape_char_no_newline: "CHR 0x0A \<notin> set (escape_char c)"
proof -
  have "(of_char c :: nat) < 256" by simp
  then have "(of_char c :: nat) div 16 < 16" by arith
  then have a: "hex_char (of_char c div 16) \<noteq> CHR 0x0A"
    by (rule hex_char_no_newline)
  have "(of_char c :: nat) mod 16 < 16" by simp
  then have b: "hex_char (of_char c mod 16) \<noteq> CHR 0x0A"
    by (rule hex_char_no_newline)
  have c: "32 \<le> (of_char c :: nat) \<Longrightarrow> c \<noteq> CHR 0x0A"
    by auto
  from a b c show ?thesis
    by (simp add: escape_char_def) metis
qed

lemma encode_str_no_newline: "CHR 0x0A \<notin> set (encode_str s)"
  by (simp add: encode_str_def escape_char_no_newline)

lemma join_Cons: "ps \<noteq> [] \<Longrightarrow> join sep (p # ps) = p @ sep @ join sep ps"
  by (cases ps) simp_all

lemma set_join: "set (join sep ps) \<subseteq> set sep \<union> \<Union> (set ` set ps)"
  by (induction sep ps rule: join.induct) auto

lemma join_avoids: "c \<notin> set sep \<Longrightarrow> \<forall>p\<in>set ps. c \<notin> set p \<Longrightarrow> c \<notin> set (join sep ps)"
  using set_join [of sep ps] by fastforce

lemma json_dumps_no_newline: "CHR 0x0A \<notin> set (json_dumps v)"
proof (induction v)
  case (PInt i)
  show ?case by (simp add: int_repr_no_newline)
next
  case (PList xs)
  have "CHR 0x0A \<notin> set (join item_separator (map json_dumps xs))"
    using PList by (intro join_avoids) (simp_all add: item_separator_def)
  then show ?case by simp
next
  case (PDict d)
  have "CHR 0x0A \<notin> set (encode_str (fst kv) @ key_separator @ json_dumps (snd kv))"
    if kv: "kv \<in> set d" for kv
  proof -
    obtain k v where eq: "kv = (k, v)" by (cases kv)
    with kv have "CHR 0x0A \<notin> set (json_dumps v)"
      using PDict [of kv v] by simp
    with eq show ?thesis
      using encode_str_no_newline [of k] by (simp add: key_separator_def)
  qed
  then have "CHR 0x0A \<notin> set (join item_separator
      (map (\<lambda>kv. encode_str (fst kv) @ key_separator @ json_dumps (snd kv)) d))"
    by (intro join_avoids) (simp_all add: item_separator_def)
  then show ?case by simp
qed

lemma spaced_append: "spaced xs \<Longrightarrow> spaced ys \<Longrightarrow> spaced (xs @ ys)"
proof (induction xs rule: spaced.induct)
  case 1
  then show ?case by simp
next
  case (2 c)
  then show ?case by (cases ys) simp_all
next
  case (3 c d cs)
  then show ?case by simp
qed

lemma plain_spaced: "list_all (\<lambda>c. c \<noteq> CHR '','' \<and> c \<noteq> CHR '':'') s \<Longrightarrow> spaced s"
  by (induction s rule: spaced.induct) simp_all

lemma digits_spaced: "list_all is_digit s \<Longrightarrow> spaced s"
  using is_digit_not_special by (intro plain_spaced) (auto simp: list_all_iff)

lemma spaced_join: "spaced sep \<Longrightarrow> list_all spaced ps \<Longrightarrow> spaced (join sep ps)"
  by (induction sep ps rule: join.induct) (simp_all add: spaced_append)

lemma encode_numbers: \<open>encode_str ''numbers'' = ''"numbers"''\<close>
  by code_simp

lemma dumps_document:
  \<open>json_dumps (PDict (build_data (build_numbers n))) =
     ''{"numbers": ['' @ join '', '' (map int_repr (py_range n)) @ '']}''\<close>
  by (simp add: build_data_eq build_numbers_eq encode_numbers key_separator_def
        item_separator_def py_range_def comp_def)

lemma dumps_document_spaced: "spaced (json_dumps (PDict (build_data (build_numbers n))))"
proof -
  have "list_all spaced (map int_repr (py_range n))"
    by (auto simp: py_range_def list_all_iff intro!: digits_spaced int_repr_nonneg)
  then have "spaced (join '', '' (map int_repr (py_range n)))"
    by (intro spaced_join) simp_all
  moreover have \<open>spaced ''{"numbers": [''\<close> by simp
  moreover have "spaced '']}''" by simp
  ultimately show ?thesis
    unfolding dumps_document by (intro spaced_append)
qed

lemma dumps_document_prefix:
  assumes "2 < n"
  shows \<open>prefix ''{"numbers": [0, 1, '' (json_dumps (PDict (build_data (build_numbers n))))\<close>
proof -
  from assms have "[0..<n] = 0 # [Suc 0..<n]"
    by (intro upt_conv_Cons) simp
  moreover from assms have "[Suc 0..<n] = Suc 0 # [2..<n]"
    using upt_conv_Cons [of "Suc 0" n] by (simp add: numeral_2_eq_2)
  moreover from assms have ne: "[2..<n] \<noteq> []"
    by simp
  ultimately have "map int_repr (py_range n)
      = int_repr 0 # int_repr 1 # map int_repr (map int [2..<n])"
    by (simp add: py_range_def)
  moreover have "int_repr 0 = ''0''" "int_repr 1 = ''1''"
    by code_simp+
  ultimately have "join '', '' (map int_repr (py_range n))
      = ''0, 1, '' @ join '', '' (map int_repr (map int [2..<n]))"
    using ne by (simp add: join_Cons)
  then show ?thesis
    unfolding dumps_document by (simp add: prefix_def)
qed

section \<open>What a run does to the files\<close>

lemma paths_distinct: "small_path \<noteq> large_path" "large_path \<noteq> small_path"
  by (simp_all add: small_path_def large_path_def)

text \<open>The three ways one \<open>with open(...)\<close> block can go.\<close>

lemma with_open_dump_cases:
  "with_open_dump flt path obj w =
     (case flt path of
        OpenFault \<Rightarrow>
          (Raised (OSError path), \<lparr>files = files w, trace = trace w @ [EvRaise (OSError path)]\<rparr>)
      | WriteFault k \<Rightarrow>
          (Raised (OSError path),
           \<lparr>files = (files w)(path \<mapsto> take k (json_dumps (PDict obj))),
            trace = trace w @ [EvOpen path, EvWrite path (take k (json_dumps (PDict obj))),
                               EvRaise (OSError path), EvClose path]\<rparr>)
      | NoFault \<Rightarrow>
          (Returned,
           \<lparr>files = (files w)(path \<mapsto> json_dumps (PDict obj)),
            trace = trace w @ [EvOpen path, EvWrite path (json_dumps (PDict obj)), EvClose path]\<rparr>))"
  by (cases "flt path")
     (simp_all add: with_open_dump_def py_open_def json_dump_def py_write_def py_close_def
        file_append_def log_event_def)

lemma small_file_after:
  "flt small_path = NoFault \<Longrightarrow>
     files (final (make_json flt fs)) small_path = Some (json_dumps (PDict sdata))"
  by (cases "flt large_path")
     (simp_all add: make_json_def with_open_dump_cases paths_distinct)

lemma large_file_after:
  "flt small_path = NoFault \<Longrightarrow> flt large_path = NoFault \<Longrightarrow>
     files (final (make_json flt fs)) large_path = Some (json_dumps (PDict ldata))"
  by (simp add: make_json_def with_open_dump_cases paths_distinct)

lemma exit_status_eq:
  "exit_status (make_json flt fs) =
     (if flt small_path = NoFault \<and> flt large_path = NoFault then 0 else 1)"
  by (cases "flt small_path"; cases "flt large_path")
     (simp_all add: make_json_def with_open_dump_cases)

lemma trace_success:
  "flt small_path = NoFault \<Longrightarrow> flt large_path = NoFault \<Longrightarrow>
   trace (final (make_json flt fs)) =
     [EvOpen small_path, EvWrite small_path (json_dumps (PDict sdata)), EvClose small_path,
      EvOpen large_path, EvWrite large_path (json_dumps (PDict ldata)), EvClose large_path]"
  by (simp add: make_json_def with_open_dump_cases)

section \<open>The content of the small file\<close>

text \<open>
  Claim C1. The document written to \<open>small_file.json\<close> has a field \<open>numbers\<close>; its
  value is a list of length 500 whose element at index \<open>i\<close> is the integer \<open>i\<close>, for
  every \<open>i\<close> below 500. The document is what the file holds once its write has gone
  through, whatever the file system held before and whatever happens to the large file.
\<close>

theorem small_file_numbers:
  "dict_get sdata ''numbers'' = Some (PList snumbers) \<and>
   length snumbers = 500 \<and>
   (\<forall>i<500. snumbers ! i = PInt (int i)) \<and>
   (\<forall>flt fs. flt small_path = NoFault \<longrightarrow>
      files (final (make_json flt fs)) small_path = Some (json_dumps (PDict sdata)))"
  by (simp add: sdata_def dict_get_build_data length_snumbers small_file_after)
     (simp add: snumbers_def nth_build_numbers)

theorem small_file_numbers_witness:
  "snumbers ! 499 = PInt 499 \<and>
   files (final (make_json (\<lambda>p. NoFault) Map.empty)) small_path
     = Some (json_dumps (PDict sdata))"
  using small_file_numbers by simp

section \<open>The content of the large file\<close>

text \<open>
  Claim C2. The document written to \<open>large_file.json\<close> has a field \<open>numbers\<close>; its
  value is a list of length 100000 whose element at index \<open>i\<close> is the integer \<open>i\<close>,
  for every \<open>i\<close> below 100000, so its last element is 99999. The document is what the
  file holds after a run in which both writes have gone through.
\<close>

theorem large_file_numbers:
  "dict_get ldata ''numbers'' = Some (PList lnumbers) \<and>
   length lnumbers = 100000 \<and>
   (\<forall>i<100000. lnumbers ! i = PInt (int i)) \<and>
   last lnumbers = PInt 99999 \<and>
   (\<forall>flt fs. flt small_path = NoFault \<and> flt large_path = NoFault \<longrightarrow>
      files (final (make_json flt fs)) large_path = Some (json_dumps (PDict ldata)))"
proof -
  have n: "\<forall>i<100000. lnumbers ! i = PInt (int i)"
    by (simp add: lnumbers_def nth_build_numbers)
  have "lnumbers \<noteq> []"
    using length_lnumbers by auto
  then have "last lnumbers = lnumbers ! (length lnumbers - 1)"
    by (rule last_conv_nth)
  with n have "last lnumbers = PInt 99999"
    by (simp add: length_lnumbers)
  with n show ?thesis
    by (simp add: ldata_def dict_get_build_data length_lnumbers large_file_after)
qed

theorem large_file_numbers_witness:
  "lnumbers ! 99999 = PInt 99999 \<and>
   files (final (make_json (\<lambda>p. NoFault) Map.empty)) large_path
     = Some (json_dumps (PDict ldata))"
  using large_file_numbers by simp

section \<open>The shape of both documents\<close>

text \<open>
  Claim C3. Each of the two documents the generator produces is a dictionary with exactly
  one key, \<open>numbers\<close>, and the value under it is the list of the integers of
  \<open>range(count)\<close> for the requested count (500 and 100000). For every count that range
  is \<open>0, 1, ..., count - 1\<close>: it has \<open>count\<close> elements and is strictly ascending.
\<close>

theorem fixture_documents_shape:
  "dict_keys sdata = [''numbers''] \<and>
   dict_get sdata ''numbers'' = Some (PList (map PInt (py_range 500))) \<and>
   dict_keys ldata = [''numbers''] \<and>
   dict_get ldata ''numbers'' = Some (PList (map PInt (py_range 100000))) \<and>
   (\<forall>n. py_range n = map int [0..<n] \<and> length (py_range n) = n \<and>
        sorted_wrt (<) (py_range n))"
proof -
  have "build_numbers n = map PInt (py_range n)" for n
    by (simp add: build_numbers_def fold_list_append)
  moreover have "sorted_wrt (<) (py_range n)" for n
    by (simp add: py_range_def sorted_wrt_map)
  ultimately show ?thesis
    by (simp add: sdata_def ldata_def snumbers_def lnumbers_def dict_keys_build_data
          dict_get_build_data)
       (simp add: py_range_def)
qed

theorem fixture_documents_shape_witness:
  "dict_keys sdata = [''numbers''] \<and> py_range 3 = [0, 1, 2] \<and> sorted_wrt (<) (py_range 3)"
proof -
  have "py_range 3 = map int [0..<3]" and "sorted_wrt (<) (py_range 3)"
    using fixture_documents_shape by blast+
  moreover have "dict_keys sdata = [''numbers'']"
    using fixture_documents_shape by blast
  ultimately show ?thesis
    by (simp add: upt_rec)
qed

section \<open>Determinism\<close>

text \<open>
  Claim C4. The generator is deterministic. Take any two runs in which the writes succeed
  (both exit with status zero), started on any two file systems and under any behaviour
  of the operating system: both leave the same content in \<open>small_file.json\<close> and the
  same content in \<open>large_file.json\<close>, and both performed the same sequence of file
  operations with the same data. The run has no other input.
\<close>

theorem make_json_deterministic:
  "exit_status (make_json flt1 fs1) = 0 \<Longrightarrow> exit_status (make_json flt2 fs2) = 0 \<Longrightarrow>
     files (final (make_json flt1 fs1)) small_path
       = files (final (make_json flt2 fs2)) small_path \<and>
     files (final (make_json flt1 fs1)) large_path
       = files (final (make_json flt2 fs2)) large_path \<and>
     trace (final (make_json flt1 fs1)) = trace (final (make_json flt2 fs2))"
  by (simp add: exit_status_eq small_file_after large_file_after trace_success split: if_splits)

theorem make_json_deterministic_witness:
  "exit_status (make_json (\<lambda>p. NoFault) Map.empty) = 0 \<and>
   exit_status (make_json (\<lambda>p. NoFault) [small_path \<mapsto> ''stale'']) = 0 \<and>
   files (final (make_json (\<lambda>p. NoFault) Map.empty)) small_path
     = files (final (make_json (\<lambda>p. NoFault) [small_path \<mapsto> ''stale''])) small_path \<and>
   files (final (make_json (\<lambda>p. NoFault) Map.empty)) large_path
     = files (final (make_json (\<lambda>p. NoFault) [small_path \<mapsto> ''stale''])) large_path"
proof -
  have a: "exit_status (make_json (\<lambda>p. NoFault) Map.empty) = 0"
    by (simp add: exit_status_eq)
  have b: "exit_status (make_json (\<lambda>p. NoFault) [small_path \<mapsto> ''stale'']) = 0"
    by (simp add: exit_status_eq)
  from a b make_json_deterministic [OF a b] show ?thesis
    by blast
qed

section \<open>Overwriting\<close>

text \<open>
  Claim C5. Opening a path for writing creates the file or cuts it to length zero, so a
  write replaces what was there. Whatever the file system held before the run, after a
  successful run \<open>small_file.json\<close> holds exactly the encoding of the small document
  and \<open>large_file.json\<close> exactly the encoding of the large one.
\<close>

theorem successful_run_replaces_content:
  "exit_status (make_json flt fs) = 0 \<Longrightarrow>
     files (final (make_json flt fs)) small_path = Some (json_dumps (PDict sdata)) \<and>
     files (final (make_json flt fs)) large_path = Some (json_dumps (PDict ldata))"
  by (simp add: exit_status_eq small_file_after large_file_after split: if_splits)

theorem successful_run_replaces_content_witness:
  "exit_status (make_json (\<lambda>p. NoFault)
       [small_path \<mapsto> ''old content'', large_path \<mapsto> ''[1, 2]'']) = 0 \<and>
   files (final (make_json (\<lambda>p. NoFault)
       [small_path \<mapsto> ''old content'', large_path \<mapsto> ''[1, 2]''])) small_path
     = Some (json_dumps (PDict sdata)) \<and>
   files (final (make_json (\<lambda>p. NoFault)
       [small_path \<mapsto> ''old content'', large_path \<mapsto> ''[1, 2]''])) large_path
     = Some (json_dumps (PDict ldata))"
proof -
  have a: "exit_status (make_json (\<lambda>p. NoFault)
       [small_path \<mapsto> ''old content'', large_path \<mapsto> ''[1, 2]'']) = 0"
    by (simp add: exit_status_eq)
  from a successful_run_replaces_content [OF a] show ?thesis
    by blast
qed

section \<open>Order of the two writes\<close>

text \<open>
  Claim C6. The two writes never interleave. In every run, whatever the operating system
  does, every file operation on \<open>small_file.json\<close> comes before every file operation
  on \<open>large_file.json\<close>. When the run gets as far as touching the large file, its
  first three operations were: open the small file, write the whole encoding of the small
  document to it, close it; nothing touches the small file after that, and none of those
  three touches the large file.
\<close>

theorem small_file_before_large_file:
  "before small_path large_path (trace (final (make_json flt fs))) \<and>
   (list_ex (\<lambda>e. event_path e = large_path) (trace (final (make_json flt fs))) \<longrightarrow>
      take 3 (trace (final (make_json flt fs)))
        = [EvOpen small_path, EvWrite small_path (json_dumps (PDict sdata)),
           EvClose small_path] \<and>
      events_on small_path (drop 3 (trace (final (make_json flt fs)))) = [] \<and>
      events_on large_path (take 3 (trace (final (make_json flt fs)))) = [])"
  by (cases "flt small_path"; cases "flt large_path")
     (simp_all add: make_json_def with_open_dump_cases paths_distinct events_on_def)

theorem small_file_before_large_file_witness:
  "list_ex (\<lambda>e. event_path e = large_path)
     (trace (final (make_json (\<lambda>p. NoFault) Map.empty))) \<and>
   take 3 (trace (final (make_json (\<lambda>p. NoFault) Map.empty)))
     = [EvOpen small_path, EvWrite small_path (json_dumps (PDict sdata)), EvClose small_path] \<and>
   events_on small_path (drop 3 (trace (final (make_json (\<lambda>p. NoFault) Map.empty)))) = []"
proof -
  have a: "list_ex (\<lambda>e. event_path e = large_path)
     (trace (final (make_json (\<lambda>p. NoFault) Map.empty)))"
    by (simp add: trace_success)
  with small_file_before_large_file [of "\<lambda>p. NoFault" Map.empty] show ?thesis
    by blast
qed

section \<open>Exit status and failures\<close>

text \<open>
  Claim C7. A run exits with status zero exactly when no file operation fails. In the
  model that is said three ways: no exception is raised during the run, the operating
  system lets both opens and both writes through, and no exception reaches the top
  level. A failure is neither caught nor retried: the exception raised is the one that
  reaches the top level, the exit status is then 1, after it is raised nothing is opened
  or written any more, and no path is opened more than once.
\<close>

theorem exit_status_zero_iff_no_failure:
  "(exit_status (make_json flt fs) = 0
      \<longleftrightarrow> \<not> list_ex is_raise (trace (final (make_json flt fs)))) \<and>
   (exit_status (make_json flt fs) = 0
      \<longleftrightarrow> flt small_path = NoFault \<and> flt large_path = NoFault) \<and>
   (exit_status (make_json flt fs) = 0 \<longleftrightarrow> uncaught (make_json flt fs) = None) \<and>
   (exit_status (make_json flt fs) \<noteq> 0 \<longrightarrow> exit_status (make_json flt fs) = 1) \<and>
   (\<forall>e. EvRaise e \<in> set (trace (final (make_json flt fs))) \<longrightarrow>
      uncaught (make_json flt fs) = Some e \<and> exit_status (make_json flt fs) = 1) \<and>
   aborted (trace (final (make_json flt fs))) \<and>
   (\<forall>p. length (filter (\<lambda>e. e = EvOpen p) (trace (final (make_json flt fs)))) \<le> 1)"
  by (cases "flt small_path"; cases "flt large_path")
     (simp_all add: make_json_def with_open_dump_cases paths_distinct)

theorem exit_status_zero_iff_no_failure_witness:
  "EvRaise (OSError large_path)
     \<in> set (trace (final (make_json (\<lambda>p. if p = large_path then WriteFault 5 else NoFault)
                             Map.empty))) \<and>
   uncaught (make_json (\<lambda>p. if p = large_path then WriteFault 5 else NoFault) Map.empty)
     = Some (OSError large_path) \<and>
   exit_status (make_json (\<lambda>p. if p = large_path then WriteFault 5 else NoFault) Map.empty) = 1"
proof -
  have a: "EvRaise (OSError large_path)
     \<in> set (trace (final (make_json (\<lambda>p. if p = large_path then WriteFault 5 else NoFault)
                             Map.empty)))"
    by (simp add: make_json_def with_open_dump_cases paths_distinct)
  with exit_status_zero_iff_no_failure
         [of "\<lambda>p. if p = large_path then WriteFault 5 else NoFault" Map.empty]
  show ?thesis
    by blast
qed

text \<open>
  Claim C8. When the open or the write of \<open>small_file.json\<close> fails, the run stops
  there: it exits with status 1 on that error, \<open>large_file.json\<close> is as it was before
  the run (absent if it was absent, with its old content otherwise), and no file
  operation on it took place.
\<close>

theorem small_failure_leaves_large_file:
  "flt small_path \<noteq> NoFault \<Longrightarrow>
     exit_status (make_json flt fs) = 1 \<and>
     uncaught (make_json flt fs) = Some (OSError small_path) \<and>
     files (final (make_json flt fs)) large_path = fs large_path \<and>
     events_on large_path (trace (final (make_json flt fs))) = []"
  by (cases "flt small_path")
     (simp_all add: make_json_def with_open_dump_cases paths_distinct events_on_def)

theorem small_failure_leaves_large_file_witness:
  "(if small_path = small_path then WriteFault 7 else NoFault) \<noteq> NoFault \<and>
   exit_status (make_json (\<lambda>p. if p = small_path then WriteFault 7 else NoFault)
                  [large_path \<mapsto> ''keep'']) = 1 \<and>
   files (final (make_json (\<lambda>p. if p = small_path then WriteFault 7 else NoFault)
                   [large_path \<mapsto> ''keep''])) large_path = Some ''keep''"
  using small_failure_leaves_large_file
          [of "\<lambda>p. if p = small_path then WriteFault 7 else NoFault" "[large_path \<mapsto> ''keep'']"]
  by simp

section \<open>The small list inside the large list\<close>

text \<open>
  Claim C9. The list under \<open>numbers\<close> in the small document is a prefix of the list
  under \<open>numbers\<close> in the large document. The small list has 500 elements and the
  large one 100000, so both have an element at every index below 500, and there the two
  lists hold the same element; the first 500 elements of the large list are the small
  list.
\<close>

theorem small_numbers_prefix_of_large:
  "dict_get sdata ''numbers'' = Some (PList snumbers) \<and>
   dict_get ldata ''numbers'' = Some (PList lnumbers) \<and>
   length snumbers = 500 \<and>
   length lnumbers = 100000 \<and>
   500 \<le> length lnumbers \<and>
   take 500 lnumbers = snumbers \<and>
   prefix snumbers lnumbers \<and>
   (\<forall>i<500. i < length snumbers \<and> i < length lnumbers \<and> snumbers ! i = lnumbers ! i)"
proof -
  have p: "prefix snumbers lnumbers"
    unfolding snumbers_def lnumbers_def by (rule build_numbers_prefix) simp
  have t: "take 500 lnumbers = snumbers"
    unfolding snumbers_def lnumbers_def by (rule build_numbers_take) simp
  have "snumbers ! i = lnumbers ! i" if "i < 500" for i
    using that by (simp add: snumbers_def lnumbers_def nth_build_numbers)
  with p t show ?thesis
    by (simp add: sdata_def ldata_def dict_get_build_data length_snumbers length_lnumbers)
qed

theorem small_numbers_prefix_of_large_witness:
  "(7::nat) < 500 \<and> 7 < length snumbers \<and> 7 < length lnumbers \<and>
   snumbers ! 7 = lnumbers ! 7"
  using small_numbers_prefix_of_large by simp

section \<open>The bytes of each file\<close>

text \<open>
  Claim C10. The content of each generated file is one line: the encoding of the document
  is an opening brace, the key \<open>numbers\<close> in double quotes, a colon and a space, an
  opening bracket, the decimal numbers separated by a comma and a space, a closing
  bracket and a closing brace. It holds no newline character anywhere, so none at the
  end; every comma and every colon in it is followed by a space; it starts with the
  characters \<open>{"numbers": [0, 1, \<close>. After a successful run that encoding is exactly
  what each file holds.
\<close>

theorem files_are_one_line:
  \<open>json_dumps (PDict sdata)
     = ''{"numbers": ['' @ join '', '' (map int_repr (py_range 500)) @ '']}'' \<and>
   json_dumps (PDict ldata)
     = ''{"numbers": ['' @ join '', '' (map int_repr (py_range 100000)) @ '']}'' \<and>
   CHR 0x0A \<notin> set (json_dumps (PDict sdata)) \<and>
   CHR 0x0A \<notin> set (json_dumps (PDict ldata)) \<and>
   spaced (json_dumps (PDict sdata)) \<and>
   spaced (json_dumps (PDict ldata)) \<and>
   prefix ''{"numbers": [0, 1, '' (json_dumps (PDict sdata)) \<and>
   prefix ''{"numbers": [0, 1, '' (json_dumps (PDict ldata)) \<and>
   (\<forall>flt fs. exit_status (make_json flt fs) = 0 \<longrightarrow>
      files (final (make_json flt fs)) small_path = Some (json_dumps (PDict sdata)) \<and>
      files (final (make_json flt fs)) large_path = Some (json_dumps (PDict ldata)))\<close>
proof -
  have \<open>prefix ''{"numbers": [0, 1, '' (json_dumps (PDict sdata))\<close>
    unfolding sdata_def snumbers_def by (rule dumps_document_prefix) simp
  moreover have \<open>prefix ''{"numbers": [0, 1, '' (json_dumps (PDict ldata))\<close>
    unfolding ldata_def lnumbers_def by (rule dumps_document_prefix) simp
  moreover have "spaced (json_dumps (PDict sdata))" and "spaced (json_dumps (PDict ldata))"
    unfolding sdata_def ldata_def snumbers_def lnumbers_def
    by (rule dumps_document_spaced)+
  moreover have \<open>json_dumps (PDict sdata)
      = ''{"numbers": ['' @ join '', '' (map int_repr (py_range 500)) @ '']}''\<close>
    and \<open>json_dumps (PDict ldata)
      = ''{"numbers": ['' @ join '', '' (map int_repr (py_range 100000)) @ '']}''\<close>
    unfolding sdata_def ldata_def snumbers_def lnumbers_def
    by (rule dumps_document)+
  moreover have "\<forall>flt fs. exit_status (make_json flt fs) = 0 \<longrightarrow>
      files (final (make_json flt fs)) small_path = Some (json_dumps (PDict sdata)) \<and>
      files (final (make_json flt fs)) large_path = Some (json_dumps (PDict ldata))"
    by (simp add: exit_status_eq small_file_after large_file_after split: if_splits)
  ultimately show ?thesis
    using json_dumps_no_newline [of "PDict sdata"] json_dumps_no_newline [of "PDict ldata"]
    by blast
qed

theorem files_are_one_line_witness:
  "exit_status (make_json (\<lambda>p. NoFault) Map.empty) = 0 \<and>
   files (final (make_json (\<lambda>p. NoFault) Map.empty)) small_path
     = Some (json_dumps (PDict sdata)) \<and>
   files (final (make_json (\<lambda>p. NoFault) Map.empty)) large_path
     = Some (json_dumps (PDict ldata))"
proof -
  have a: "exit_status (make_json (\<lambda>p. NoFault) Map.empty) = 0"
    by (simp add: exit_status_eq)
  with files_are_one_line show ?thesis
    by blast
qed

end
